theory Spec2Isabelle
  imports Main "HOL-Library.Word"
begin

section \<open>The upload endpoint of WeddingSite, as a shallow embedding\<close>

text \<open>
  The repository holds two copies of one Go program: \<^verbatim>\<open>Backend/main.go\<close> (field
  \<^verbatim>\<open>file\<close>, port 8080, no CORS) and a second copy (field \<^verbatim>\<open>image\<close>, port 8085,
  CORS headers, an \<^verbatim>\<open>OPTIONS\<close> short cut and an explicit \<^verbatim>\<open>ParseMultipartForm\<close>).
  Both are modelled, each top to bottom as it is written. What the handler cannot
  decide (the clock, the outcome of the calls into the operating system, what the
  library's multipart parser makes of the body) is an explicit input; what it changes
  (the response, the files on disk, standard output) is explicit state.
\<close>

subsection \<open>Data\<close>

type_synonym byte = "8 word"

text \<open>\<^verbatim>\<open>multipart.FileHeader\<close>: the client's file name and the bytes of the part.\<close>

record FileHeader =
  Filename :: string
  Content :: "byte list"

text \<open>
  \<^verbatim>\<open>multipart.Form\<close>: two Go maps from a field name to a slice; a missing key reads
  as the empty slice.
\<close>

record Form =
  Value :: "string \<Rightarrow> string list"
  File :: "string \<Rightarrow> FileHeader list"

datatype error =
  ErrNotMultipart
| ErrMessageTooLarge
| ErrMissingFile
| ErrNotExist
| ErrOther

text \<open>
  A request, as far as the handler reads it: the method, and what the library's
  multipart reader makes of the body under a given cap on the memory it may use
  (\<^verbatim>\<open>multipart.Reader.ReadForm(maxMemory)\<close>): the form, or an error when the body is
  not multipart form data, is malformed, or holds more than the cap lets the library
  keep.
\<close>

record Request =
  Method :: string
  ReadForm :: "nat \<Rightarrow> error + Form"

text \<open>
  \<^verbatim>\<open>http.ResponseWriter\<close>: the header map, the status code once \<^verbatim>\<open>WriteHeader\<close> has
  fixed it, and the body written so far.
\<close>

record Response =
  header :: "string \<rightharpoonup> string"
  code :: "nat option"
  body :: string

text \<open>
  \<^verbatim>\<open>time.Time\<close>: its rendering by \<^verbatim>\<open>String()\<close> and its reading in nanoseconds, which
  \<^verbatim>\<open>Sub\<close> subtracts.
\<close>

record Time =
  String :: string
  nanos :: int

text \<open>The local disk: the directories that exist and the content of each file, by path.\<close>

record FileSystem =
  dirs :: "string set"
  files :: "string \<rightharpoonup> byte list"

text \<open>What the handler prints with \<^verbatim>\<open>fmt.Printf\<close>; the duration is kept in nanoseconds.\<close>

datatype printed =
  SavedIn int
| SavedAt string int

record World =
  fs :: FileSystem
  stdout :: "printed list"

text \<open>
  The environment of one call of the handler: the readings of \<^verbatim>\<open>time.Now()\<close> in the
  order the handler takes them, and whether each call into the operating system fails.
  \<open>copy_error = Some n\<close>: \<^verbatim>\<open>io.Copy\<close> fails when \<open>n\<close> bytes have reached the file.
\<close>

record Env =
  t_start :: Time
  t_create :: Time
  t_checkpoint :: Time
  t_print :: Time
  stat_error :: bool
  mkdir_error :: bool
  create_error :: bool
  copy_error :: "nat option"

subsection \<open>The library calls the handler makes\<close>

definition MethodPost :: string where
  "MethodPost = ''POST''"

definition MethodOptions :: string where
  "MethodOptions = ''OPTIONS''"

definition StatusOK :: nat where
  "StatusOK = 200"

definition StatusBadRequest :: nat where
  "StatusBadRequest = 400"

definition StatusMethodNotAllowed :: nat where
  "StatusMethodNotAllowed = 405"

definition StatusInternalServerError :: nat where
  "StatusInternalServerError = 500"

definition newResponse :: Response where
  "newResponse = \<lparr>header = Map.empty, code = None, body = []\<rparr>"

definition Header_Set :: "string \<Rightarrow> string \<Rightarrow> Response \<Rightarrow> Response" where
  "Header_Set k v r = r\<lparr>header := (header r)(k \<mapsto> v)\<rparr>"

definition Header_Del :: "string \<Rightarrow> Response \<Rightarrow> Response" where
  "Header_Del k r = r\<lparr>header := (header r)(k := None)\<rparr>"

text \<open>The first \<^verbatim>\<open>WriteHeader\<close> fixes the status; a later one is ignored.\<close>

definition WriteHeader :: "nat \<Rightarrow> Response \<Rightarrow> Response" where
  "WriteHeader c r = (if code r = None then r\<lparr>code := Some c\<rparr> else r)"

text \<open>A write before any \<^verbatim>\<open>WriteHeader\<close> sends status 200 first.\<close>

definition Write :: "string \<Rightarrow> Response \<Rightarrow> Response" where
  "Write s r = (let r' = WriteHeader StatusOK r in r'\<lparr>body := body r' @ s\<rparr>)"

text \<open>
  \<^verbatim>\<open>http.Error\<close>: drops headers that described the abandoned body, marks the reply as
  plain text, writes the status and then the message with \<^verbatim>\<open>Fprintln\<close>, which adds a
  newline of its own.
\<close>

definition Error :: "Response \<Rightarrow> string \<Rightarrow> nat \<Rightarrow> Response" where
  "Error w msg c =
     Write (msg @ ''\<newline>'')
       (WriteHeader c
         (Header_Set ''X-Content-Type-Options'' ''nosniff''
           (Header_Set ''Content-Type'' ''text/plain; charset=utf-8''
             (Header_Del ''Content-Length'' w))))"

text \<open>The status the client receives: 200 when the handler returns without fixing one.\<close>

definition status_sent :: "Response \<Rightarrow> nat" where
  "status_sent r = (case code r of None \<Rightarrow> StatusOK | Some c \<Rightarrow> c)"

text \<open>
  \<^verbatim>\<open>Request.ParseMultipartForm(maxMemory)\<close> reads the form of the body under the cap it
  is given, and fails where the library's reader does under that cap.
\<close>

definition ParseMultipartForm :: "nat \<Rightarrow> Request \<Rightarrow> error + Form" where
  "ParseMultipartForm maxMemory r = ReadForm r maxMemory"

definition defaultMaxMemory :: nat where
  "defaultMaxMemory = push_bit 20 32"

text \<open>
  The form the body holds, as the library reads it under its default cap (\<open>None\<close> when
  it does not read one).
\<close>

definition Body :: "Request \<Rightarrow> Form option" where
  "Body r = (case ParseMultipartForm defaultMaxMemory r of Inl err \<Rightarrow> None | Inr f \<Rightarrow> Some f)"

text \<open>
  \<^verbatim>\<open>Request.FormFile(key)\<close>: parses the form with the default cap when that has not
  happened yet, then opens the first file of the field. Where the handler has parsed
  before, under the same cap, parsing again gives the form it has. The header is
  returned with the file; the file is its content.
\<close>

definition FormFile :: "string \<Rightarrow> Request \<Rightarrow> error + FileHeader" where
  "FormFile key r =
     (case ParseMultipartForm defaultMaxMemory r of
        Inl err \<Rightarrow> Inl err
      | Inr f \<Rightarrow> (case File f key of [] \<Rightarrow> Inl ErrMissingFile | fh # _ \<Rightarrow> Inr fh))"

definition Stat :: "Env \<Rightarrow> FileSystem \<Rightarrow> string \<Rightarrow> error option" where
  "Stat env d name =
     (if stat_error env then Some ErrOther
      else if name \<in> dirs d \<or> files d name \<noteq> None then None
      else Some ErrNotExist)"

definition IsNotExist :: "error option \<Rightarrow> bool" where
  "IsNotExist err = (err = Some ErrNotExist)"

definition Mkdir :: "Env \<Rightarrow> FileSystem \<Rightarrow> string \<Rightarrow> error + FileSystem" where
  "Mkdir env d name =
     (if mkdir_error env then Inl ErrOther else Inr (d\<lparr>dirs := insert name (dirs d)\<rparr>))"

text \<open>\<^verbatim>\<open>os.Create\<close>: makes the file, or empties it when it is there already.\<close>

definition Create :: "Env \<Rightarrow> FileSystem \<Rightarrow> string \<Rightarrow> error + FileSystem" where
  "Create env d name =
     (if create_error env then Inl ErrOther else Inr (d\<lparr>files := (files d)(name \<mapsto> [])\<rparr>))"

text \<open>
  \<^verbatim>\<open>io.Copy(destFile, file)\<close> into the file just created: the file holds what was
  written, all of the source, or its first \<open>n\<close> bytes when the copy fails there.
\<close>

definition Copy :: "Env \<Rightarrow> FileSystem \<Rightarrow> string \<Rightarrow> byte list \<Rightarrow> FileSystem \<times> error option" where
  "Copy env d name src =
     (case copy_error env of
        None \<Rightarrow> (d\<lparr>files := (files d)(name \<mapsto> src)\<rparr>, None)
      | Some n \<Rightarrow> (d\<lparr>files := (files d)(name \<mapsto> take n src)\<rparr>, Some ErrOther))"

text \<open>
  \<^verbatim>\<open>filepath.Join\<close> puts a separator between its arguments. (Go then cleans the path
  lexically, which spells the same file without the leading \<^verbatim>\<open>./\<close>; the model keeps
  the spelling with the directory as the constant has it.)
\<close>

definition Join :: "string \<Rightarrow> string \<Rightarrow> string" where
  "Join dir name = dir @ ''/'' @ name"

definition Sub :: "Time \<Rightarrow> Time \<Rightarrow> int" where
  "Sub t u = nanos t - nanos u"

subsection \<open>The handler of \<^verbatim>\<open>Backend/main.go\<close>\<close>

definition uploadPath :: string where
  "uploadPath = ''./uploads''"

definition uploadHandler :: "Env \<Rightarrow> Request \<Rightarrow> World \<Rightarrow> Response \<times> World" where
  "uploadHandler env request w =
     (let response = newResponse;
          start = t_start env;
          after = (\<lambda>response w.
            let checkpoint = t_checkpoint env
            in (response, w\<lparr>stdout := stdout w @ [SavedIn (Sub checkpoint start)]\<rparr>))
      in
      if Method request = MethodPost then
        (case FormFile ''file'' request of
           Inl err \<Rightarrow>
             (Error response ''Unable to get file from form\<newline>'' StatusBadRequest, w)
         | Inr file \<Rightarrow>
             (case (if IsNotExist (Stat env (fs w) uploadPath)
                    then Mkdir env (fs w) uploadPath else Inr (fs w)) of
                Inl err \<Rightarrow>
                  (Error response ''Unable to create upload directory\<newline>''
                     StatusInternalServerError, w)
              | Inr d1 \<Rightarrow>
                  (let destFile = Join uploadPath (String (t_create env)) in
                   case Create env d1 destFile of
                     Inl err \<Rightarrow>
                       (Error response ''Unable to create file\<newline>''
                          StatusInternalServerError, w\<lparr>fs := d1\<rparr>)
                   | Inr d2 \<Rightarrow>
                       (case Copy env d2 destFile (Content file) of
                          (d3, Some err) \<Rightarrow>
                            (Error response ''Unable to save file\<newline>''
                               StatusInternalServerError, w\<lparr>fs := d3\<rparr>)
                        | (d3, None) \<Rightarrow>
                            after (Write ''File successfully uploaded\<newline>'' response)
                              (w\<lparr>fs := d3\<rparr>)))))
      else
        after (Error response ''Invalid request method\<newline>'' StatusMethodNotAllowed) w)"

subsection \<open>The handler of the second copy, with CORS\<close>

definition uploadHandler_cors :: "Env \<Rightarrow> Request \<Rightarrow> World \<Rightarrow> Response \<times> World" where
  "uploadHandler_cors env request w =
     (let start = t_start env;
          response =
            Header_Set ''Access-Control-Allow-Headers'' ''Content-Type''
              (Header_Set ''Access-Control-Allow-Methods'' ''POST''
                (Header_Set ''Access-Control-Allow-Origin'' ''*'' newResponse));
          after = (\<lambda>response w.
            let checkpoint = t_checkpoint env
            in (response,
                w\<lparr>stdout := stdout w @
                   [SavedAt (String (t_print env)) (Sub checkpoint start)]\<rparr>))
      in
      if Method request = MethodOptions then (WriteHeader StatusOK response, w)
      else
        (case ParseMultipartForm (push_bit 20 32) request of
           Inl err \<Rightarrow> (Error response ''Could not parse form'' StatusBadRequest, w)
         | Inr parsed \<Rightarrow>
             if Method request = MethodPost then
               (case FormFile ''image'' request of
                  Inl err \<Rightarrow>
                    (Error response ''Error retrieving the file'' StatusBadRequest, w)
                | Inr file \<Rightarrow>
                    (case (if IsNotExist (Stat env (fs w) uploadPath)
                           then Mkdir env (fs w) uploadPath else Inr (fs w)) of
                       Inl err \<Rightarrow>
                         (Error response ''Unable to create upload directory\<newline>''
                            StatusInternalServerError, w)
                     | Inr d1 \<Rightarrow>
                         (let destFile = Join uploadPath (String (t_create env)) in
                          case Create env d1 destFile of
                            Inl err \<Rightarrow>
                              (Error response ''Unable to create file\<newline>''
                                 StatusInternalServerError, w\<lparr>fs := d1\<rparr>)
                          | Inr d2 \<Rightarrow>
                              (case Copy env d2 destFile (Content file) of
                                 (d3, Some err) \<Rightarrow>
                                   (Error response ''Unable to save file\<newline>''
                                      StatusInternalServerError, w\<lparr>fs := d3\<rparr>)
                               | (d3, None) \<Rightarrow>
                                   after
                                     (Write ''File successfully uploaded\<newline>'' response)
                                     (w\<lparr>fs := d3\<rparr>)))))
             else
               after
                 (Error response ''Invalid request method\<newline>'' StatusMethodNotAllowed)
                 w))"

text \<open>The two copies side by side: which handler, and which form field it reads.\<close>

datatype variant = Plain | Cors

fun handler :: "variant \<Rightarrow> Env \<Rightarrow> Request \<Rightarrow> World \<Rightarrow> Response \<times> World" where
  "handler Plain = uploadHandler"
| "handler Cors = uploadHandler_cors"

fun field :: "variant \<Rightarrow> string" where
  "field Plain = ''file''"
| "field Cors = ''image''"

text \<open>The path the handler hands to \<^verbatim>\<open>os.Create\<close>.\<close>

definition dest :: "Env \<Rightarrow> string" where
  "dest env = Join uploadPath (String (t_create env))"

text \<open>The same request with every client-supplied file name replaced.\<close>

definition rename :: "(string \<Rightarrow> string) \<Rightarrow> Request \<Rightarrow> Request" where
  "rename g r =
     r\<lparr>ReadForm := (\<lambda>cap.
         map_sum id
           (\<lambda>f. f\<lparr>File := (\<lambda>k. map (\<lambda>fh. fh\<lparr>Filename := g (Filename fh)\<rparr>) (File f k))\<rparr>)
           (ReadForm r cap))\<rparr>"

subsection \<open>The entry point\<close>

text \<open>
  A call either returns or blocks for the life of the process.
  \<^verbatim>\<open>http.ListenAndServe\<close> blocks while it serves and returns only with an error; whether
  the address can be bound is the environment's.
\<close>

datatype 'a call = Returns 'a | Blocks

definition ListenAndServe :: "string option \<Rightarrow> string \<Rightarrow> string call" where
  "ListenAndServe bind_error addr =
     (case bind_error of None \<Rightarrow> Blocks | Some err \<Rightarrow> Returns err)"

text \<open>
  The process as \<^verbatim>\<open>main\<close> sees it: the routes registered with the default
  multiplexer, each with the copy of the handler it leads to, and the lines printed to
  standard output.
\<close>

record Process =
  mux :: "(string \<times> variant) list"
  out :: "string list"

definition HandleFunc :: "string \<Rightarrow> variant \<Rightarrow> Process \<Rightarrow> Process" where
  "HandleFunc pattern h p = p\<lparr>mux := mux p @ [(pattern, h)]\<rparr>"

text \<open>\<^verbatim>\<open>fmt.Println\<close>: the operands with blanks between them, then a newline.\<close>

fun spaced :: "string list \<Rightarrow> string" where
  "spaced [] = []"
| "spaced [x] = x"
| "spaced (x # y # ys) = x @ '' '' @ spaced (y # ys)"

definition Println :: "string list \<Rightarrow> Process \<Rightarrow> Process" where
  "Println operands p = p\<lparr>out := out p @ [spaced operands @ ''\<newline>'']\<rparr>"

text \<open>
  \<^verbatim>\<open>main\<close> of \<^verbatim>\<open>Backend/main.go\<close>, started in a fresh process: the process as
  \<^verbatim>\<open>main\<close> leaves it, and whether \<^verbatim>\<open>main\<close> returns.
\<close>

definition main :: "string option \<Rightarrow> Process \<times> unit call" where
  "main bind_error =
     (let p = HandleFunc ''/upload'' Plain \<lparr>mux = [], out = []\<rparr>;
          p = Println [''Server started at http://localhost:8080''] p
      in case ListenAndServe bind_error '':8080'' of
           Blocks \<Rightarrow> (p, Blocks)
         | Returns err \<Rightarrow> (Println [''Server failed:'', err] p, Returns ()))"

definition main_cors :: "string option \<Rightarrow> Process \<times> unit call" where
  "main_cors bind_error =
     (let p = HandleFunc ''/upload'' Cors \<lparr>mux = [], out = []\<rparr>;
          p = Println [''Server started at http://localhost:8085''] p
      in case ListenAndServe bind_error '':8085'' of
           Blocks \<Rightarrow> (p, Blocks)
         | Returns err \<Rightarrow> (Println [''Server failed:'', err] p, Returns ()))"

text \<open>
  A Go program exits, with status 0, when its \<^verbatim>\<open>main\<close> returns; while \<^verbatim>\<open>main\<close> is
  blocked the process lives on and has no exit status. The result is what the process
  has printed and its exit status, if it has one.
\<close>

definition program :: "Process \<times> unit call \<Rightarrow> string list \<times> nat option" where
  "program m =
     (case m of (p, Returns u) \<Rightarrow> (out p, Some 0) | (p, Blocks) \<Rightarrow> (out p, None))"

subsection \<open>Concrete inputs\<close>

definition env_ok :: Env where
  "env_ok =
     \<lparr>t_start = \<lparr>String = ''2024-05-01 10:00:00.000000001 +0000 UTC m=+5.000000001'', nanos = 5000000001\<rparr>,
      t_create = \<lparr>String = ''2024-05-01 10:00:00.000000002 +0000 UTC m=+5.000000002'', nanos = 5000000002\<rparr>,
      t_checkpoint = \<lparr>String = ''2024-05-01 10:00:00.000000003 +0000 UTC m=+5.000000003'', nanos = 5000000003\<rparr>,
      t_print = \<lparr>String = ''2024-05-01 10:00:00.000000004 +0000 UTC m=+5.000000004'', nanos = 5000000004\<rparr>,
      stat_error = False, mkdir_error = False, create_error = False, copy_error = None\<rparr>"

definition env_copy_fails :: Env where
  "env_copy_fails = env_ok\<lparr>copy_error := Some 4\<rparr>"

definition payload :: "byte list" where
  "payload = [1, 2, 3, 4, 5, 6, 7, 8, 9, 10]"

definition form_with :: "string \<Rightarrow> Form" where
  "form_with key =
     \<lparr>Value = (\<lambda>k. []),
      File = (\<lambda>k. if k = key then [\<lparr>Filename = ''a.txt'', Content = payload\<rparr>] else [])\<rparr>"

definition form_without :: Form where
  "form_without = \<lparr>Value = (\<lambda>k. []), File = (\<lambda>k. [])\<rparr>"

text \<open>
  A body that is not multipart form data is refused under every cap; a small form is
  read under every cap.
\<close>

definition read_always :: "Form option \<Rightarrow> nat \<Rightarrow> error + Form" where
  "read_always b cap = (case b of None \<Rightarrow> Inl ErrNotMultipart | Some f \<Rightarrow> Inr f)"

definition post :: "Form option \<Rightarrow> Request" where
  "post b = \<lparr>Method = ''POST'', ReadForm = read_always b\<rparr>"

definition get_plain :: Request where
  "get_plain = \<lparr>Method = ''GET'', ReadForm = read_always None\<rparr>"

definition preflight :: Request where
  "preflight = \<lparr>Method = ''OPTIONS'', ReadForm = read_always None\<rparr>"




definition world_empty :: World where
  "world_empty = \<lparr>fs = \<lparr>dirs = {}, files = Map.empty\<rparr>, stdout = []\<rparr>"

text \<open>A disk that already holds a file under the name the clock of \<open>env_ok\<close> gives.\<close>

definition world_taken :: World where
  "world_taken =
     \<lparr>fs = \<lparr>dirs = {''./uploads''}, files = [dest env_ok \<mapsto> [7, 7, 7]]\<rparr>, stdout = []\<rparr>"

section \<open>Properties of the handlers\<close>

subsection \<open>Unfolding sets and shared lemmas\<close>

lemmas response_defs =
  Error_def Write_def WriteHeader_def Header_Set_def Header_Del_def newResponse_def
  status_sent_def StatusOK_def StatusBadRequest_def StatusMethodNotAllowed_def
  StatusInternalServerError_def

lemmas os_defs =
  Stat_def IsNotExist_def Mkdir_def Create_def Copy_def Join_def uploadPath_def

lemmas input_defs =
  env_ok_def env_copy_fails_def payload_def form_with_def form_without_def post_def
  get_plain_def preflight_def world_empty_def world_taken_def read_always_def
  ParseMultipartForm_def Body_def

text \<open>Both copies parse under one cap, 32 MiB.\<close>

lemma cap_num: "defaultMaxMemory = 33554432"
  by (simp add: defaultMaxMemory_def push_bit_eq_mult)

lemma parse_Some: "Body r = Some f \<Longrightarrow> ParseMultipartForm 33554432 r = Inr f"
  by (simp add: Body_def cap_num split: sum.splits)

lemmas form_defs = FormFile_def cap_num MethodPost_def MethodOptions_def

lemma files_changed_plain:
  "files (fs (snd (uploadHandler env r w))) p \<noteq> files (fs w) p \<Longrightarrow> p = dest env"
  by (auto simp: uploadHandler_def os_defs dest_def Let_def
      split: if_splits sum.splits option.splits prod.splits)

lemma files_changed_cors:
  "files (fs (snd (uploadHandler_cors env r w))) p \<noteq> files (fs w) p \<Longrightarrow> p = dest env"
  by (auto simp: uploadHandler_cors_def os_defs dest_def Let_def
      split: if_splits sum.splits option.splits prod.splits)

lemma files_changed:
  "files (fs (snd (handler v env r w))) p \<noteq> files (fs w) p \<Longrightarrow> p = dest env"
  by (cases v) (auto dest: files_changed_plain files_changed_cors)

lemma success_plain:
  assumes "Method r = MethodPost" and "Body r = Some f" and "File f ''file'' = fh # rest"
    and "\<not> (IsNotExist (Stat env (fs w) uploadPath) \<and> mkdir_error env)"
    and "\<not> create_error env" and "copy_error env = None"
  shows "status_sent (fst (uploadHandler env r w)) = 200"
    and "body (fst (uploadHandler env r w)) = ''File successfully uploaded\<newline>''"
    and "files (fs (snd (uploadHandler env r w))) = (files (fs w))(dest env \<mapsto> Content fh)"
  using assms parse_Some [of r f]
  by (auto simp: uploadHandler_def form_defs response_defs Mkdir_def Create_def Copy_def
      dest_def Let_def)

lemma success_cors:
  assumes "Method r = MethodPost" and "Body r = Some f" and "File f ''image'' = fh # rest"
    and "\<not> (IsNotExist (Stat env (fs w) uploadPath) \<and> mkdir_error env)"
    and "\<not> create_error env" and "copy_error env = None"
  shows "status_sent (fst (uploadHandler_cors env r w)) = 200"
    and "body (fst (uploadHandler_cors env r w)) = ''File successfully uploaded\<newline>''"
    and "files (fs (snd (uploadHandler_cors env r w))) = (files (fs w))(dest env \<mapsto> Content fh)"
  using assms parse_Some [of r f]
  by (auto simp: uploadHandler_cors_def form_defs response_defs Mkdir_def Create_def Copy_def
      dest_def Let_def)

lemma copy_fails_plain:
  assumes "Method r = MethodPost" and "Body r = Some f" and "File f ''file'' = fh # rest"
    and "\<not> (IsNotExist (Stat env (fs w) uploadPath) \<and> mkdir_error env)"
    and "\<not> create_error env" and "copy_error env = Some n"
  shows "status_sent (fst (uploadHandler env r w)) = 500"
    and "body (fst (uploadHandler env r w)) = ''Unable to save file\<newline>\<newline>''"
    and "files (fs (snd (uploadHandler env r w))) (dest env) = Some (take n (Content fh))"
  using assms parse_Some [of r f]
  by (auto simp: uploadHandler_def form_defs response_defs Mkdir_def Create_def Copy_def
      dest_def Let_def)

lemma copy_fails_cors:
  assumes "Method r = MethodPost" and "Body r = Some f" and "File f ''image'' = fh # rest"
    and "\<not> (IsNotExist (Stat env (fs w) uploadPath) \<and> mkdir_error env)"
    and "\<not> create_error env" and "copy_error env = Some n"
  shows "status_sent (fst (uploadHandler_cors env r w)) = 500"
    and "body (fst (uploadHandler_cors env r w)) = ''Unable to save file\<newline>\<newline>''"
    and "files (fs (snd (uploadHandler_cors env r w))) (dest env) = Some (take n (Content fh))"
  using assms parse_Some [of r f]
  by (auto simp: uploadHandler_cors_def form_defs response_defs Mkdir_def Create_def Copy_def
      dest_def Let_def)

lemma no_field_plain:
  assumes "Method r = MethodPost" and "Body r = Some f" and "File f ''file'' = []"
  shows "status_sent (fst (uploadHandler env r w)) = 400" and "snd (uploadHandler env r w) = w"
  using assms parse_Some [of r f] by (simp_all add: uploadHandler_def form_defs response_defs)

lemma no_field_cors:
  assumes "Method r = MethodPost" and "Body r = Some f" and "File f ''image'' = []"
  shows "status_sent (fst (uploadHandler_cors env r w)) = 400"
    and "snd (uploadHandler_cors env r w) = w"
  using assms parse_Some [of r f]
  by (simp_all add: uploadHandler_cors_def form_defs response_defs)

lemma FormFile_rename:
  "FormFile key (rename g r) =
     (case FormFile key r of Inl e \<Rightarrow> Inl e | Inr fh \<Rightarrow> Inr (fh\<lparr>Filename := g (Filename fh)\<rparr>))"
  by (cases "ReadForm r defaultMaxMemory")
    (auto simp: FormFile_def ParseMultipartForm_def rename_def split: list.splits)

lemma ParseMultipartForm_rename:
  "(case ParseMultipartForm m (rename g r) of Inl e \<Rightarrow> True | Inr x \<Rightarrow> False) =
   (case ParseMultipartForm m r of Inl e \<Rightarrow> True | Inr x \<Rightarrow> False)"
  by (cases "ReadForm r m") (auto simp: ParseMultipartForm_def rename_def)

lemma Method_rename: "Method (rename g r) = Method r"
  by (simp add: rename_def)

lemma rename_plain: "uploadHandler env (rename g r) w = uploadHandler env r w"
  by (cases "FormFile ''file'' r")
    (auto simp: uploadHandler_def FormFile_rename Method_rename Let_def split: sum.splits)

lemma rename_cors: "uploadHandler_cors env (rename g r) w = uploadHandler_cors env r w"
  using ParseMultipartForm_rename [of "push_bit 20 32" g r]
  by (cases "FormFile ''image'' r")
    (auto simp: uploadHandler_cors_def FormFile_rename Method_rename Let_def split: sum.splits)

lemma rename_handler: "handler v env (rename g r) w = handler v env r w"
  by (cases v) (simp_all add: rename_plain rename_cors)

lemma cors_headers:
  "header (fst (uploadHandler_cors env r w)) ''Access-Control-Allow-Origin'' = Some ''*''"
  "header (fst (uploadHandler_cors env r w)) ''Access-Control-Allow-Methods'' = Some ''POST''"
  "header (fst (uploadHandler_cors env r w)) ''Access-Control-Allow-Headers'' = Some ''Content-Type''"
  by (simp_all add: uploadHandler_cors_def response_defs Let_def
      split: sum.splits option.splits prod.splits)

subsection \<open>The claims\<close>

text \<open>
  C1 (as amended). A POST whose form carries the handler's file field, with every step
  succeeding, is answered with status 200 and the body \<^verbatim>\<open>File successfully uploaded\<close>
  plus a newline. Afterwards the file at \<^verbatim>\<open>./uploads/\<close> followed by the rendered time of
  creation holds the bytes of the uploaded part, and every other file is as before. That
  file is the one new file on disk when the name was free; when the name was taken, the
  old file is overwritten and no file is new.
\<close>

theorem upload_stores_payload:
  assumes "Method r = MethodPost" and "Body r = Some f" and "File f (field v) = fh # rest"
    and "\<not> (IsNotExist (Stat env (fs w) uploadPath) \<and> mkdir_error env)"
    and "\<not> create_error env" and "copy_error env = None"
  shows "status_sent (fst (handler v env r w)) = 200
       \<and> body (fst (handler v env r w)) = ''File successfully uploaded\<newline>''
       \<and> files (fs (snd (handler v env r w)))
           = (files (fs w))(''./uploads/'' @ String (t_create env) \<mapsto> Content fh)
       \<and> dom (files (fs (snd (handler v env r w)))) - dom (files (fs w))
           = (if files (fs w) (''./uploads/'' @ String (t_create env)) = None
              then {''./uploads/'' @ String (t_create env)} else {})"
proof -
  have d: "dest env = ''./uploads/'' @ String (t_create env)"
    by (simp add: dest_def Join_def uploadPath_def)
  have "status_sent (fst (handler v env r w)) = 200
      \<and> body (fst (handler v env r w)) = ''File successfully uploaded\<newline>''
      \<and> files (fs (snd (handler v env r w))) = (files (fs w))(dest env \<mapsto> Content fh)"
  proof (cases v)
    case Plain
    with assms show ?thesis
      using success_plain [of r f fh rest env w] by simp
  next
    case Cors
    with assms show ?thesis
      using success_cors [of r f fh rest env w] by simp
  qed
  then show ?thesis
    by (auto simp: d)
qed

theorem upload_stores_payload_witness:
  "Method (post (Some (form_with ''file''))) = MethodPost
   \<and> Body (post (Some (form_with ''file''))) = Some (form_with ''file'')
   \<and> File (form_with ''file'') (field Plain) = [\<lparr>Filename = ''a.txt'', Content = payload\<rparr>]
   \<and> \<not> (IsNotExist (Stat env_ok (fs world_empty) uploadPath) \<and> mkdir_error env_ok)
   \<and> \<not> create_error env_ok \<and> copy_error env_ok = None
   \<and> status_sent (fst (handler Plain env_ok (post (Some (form_with ''file''))) world_empty)) = 200
   \<and> files (fs (snd (handler Plain env_ok (post (Some (form_with ''file''))) world_empty)))
        (''./uploads/'' @ String (t_create env_ok)) = Some payload
   \<and> dom (files (fs (snd (handler Plain env_ok (post (Some (form_with ''file''))) world_empty))))
        - dom (files (fs world_empty)) = {''./uploads/'' @ String (t_create env_ok)}"
  using upload_stores_payload [where r = "post (Some (form_with ''file''))"
      and f = "form_with ''file''" and v = Plain
      and fh = "\<lparr>Filename = ''a.txt'', Content = payload\<rparr>" and rest = "[]"
      and env = env_ok and w = world_empty]
  by (simp add: input_defs MethodPost_def)

text \<open>
  C1 as stated fails where the name is taken: the upload succeeds with status 200,
  the old file is overwritten, and the disk holds the same set of files as before.
\<close>

theorem upload_overwrites_counterexample:
  "Method (post (Some (form_with ''file''))) = MethodPost
   \<and> File (form_with ''file'') ''file'' = [\<lparr>Filename = ''a.txt'', Content = payload\<rparr>]
   \<and> status_sent (fst (uploadHandler env_ok (post (Some (form_with ''file''))) world_taken)) = 200
   \<and> dom (files (fs (snd (uploadHandler env_ok (post (Some (form_with ''file''))) world_taken))))
       = dom (files (fs world_taken))"
  by (simp add: uploadHandler_def form_defs response_defs os_defs input_defs dest_def)

text \<open>
  C3. A POST whose multipart form has no file under the handler's field is answered
  with status 400, and the world after the call (the disk and standard output) is the
  world before it.
\<close>

theorem missing_field_rejected:
  assumes "Method r = MethodPost" and "Body r = Some f" and "File f (field v) = []"
  shows "status_sent (fst (handler v env r w)) = 400 \<and> snd (handler v env r w) = w"
proof (cases v)
  case Plain
  with assms show ?thesis
    using no_field_plain [of r f env w] by simp
next
  case Cors
  with assms show ?thesis
    using no_field_cors [of r f env w] by simp
qed

theorem missing_field_rejected_witness:
  "Method (post (Some form_without)) = MethodPost
   \<and> Body (post (Some form_without)) = Some form_without
   \<and> File form_without (field Cors) = []
   \<and> status_sent (fst (handler Cors env_ok (post (Some form_without)) world_taken)) = 400
   \<and> snd (handler Cors env_ok (post (Some form_without)) world_taken) = world_taken"
  using missing_field_rejected [where r = "post (Some form_without)" and f = form_without
      and v = Cors and env = env_ok and w = world_taken]
  by (simp add: input_defs MethodPost_def)

text \<open>
  C2, at the input where the code departs from it: a GET without a multipart body.
  The handler of \<^verbatim>\<open>Backend/main.go\<close> answers 405; the CORS copy parses the form before
  it looks at the method and answers 400 with \<^verbatim>\<open>Could not parse form\<close>. Neither
  touches the disk.
\<close>

theorem get_without_form_cors_400:
  "status_sent (fst (uploadHandler_cors env_ok get_plain world_empty)) = 400
   \<and> body (fst (uploadHandler_cors env_ok get_plain world_empty)) = ''Could not parse form\<newline>''
   \<and> fs (snd (uploadHandler_cors env_ok get_plain world_empty)) = fs world_empty
   \<and> status_sent (fst (uploadHandler env_ok get_plain world_empty)) = 405
   \<and> fs (snd (uploadHandler env_ok get_plain world_empty)) = fs world_empty"
  by (simp add: uploadHandler_def uploadHandler_cors_def form_defs response_defs input_defs)

text \<open>
  What does hold of a method that is not POST: the handler of \<^verbatim>\<open>Backend/main.go\<close>
  always answers 405, the CORS copy does so when the method is not OPTIONS either and
  the body parses; the disk is never touched.
\<close>

lemma not_post_plain:
  "Method r \<noteq> MethodPost \<Longrightarrow>
   status_sent (fst (uploadHandler env r w)) = 405 \<and> fs (snd (uploadHandler env r w)) = fs w"
  by (simp add: uploadHandler_def response_defs)

lemma not_post_cors:
  "Method r \<noteq> MethodPost \<Longrightarrow> Method r \<noteq> MethodOptions \<Longrightarrow>
   status_sent (fst (uploadHandler_cors env r w)) = (if Body r = None then 400 else 405)
   \<and> fs (snd (uploadHandler_cors env r w)) = fs w"
  by (auto simp: uploadHandler_cors_def response_defs cap_num Body_def split: sum.splits)




text \<open>
  C5. Whatever the request, the clock and the disk, a file whose content differs after
  the call from what it was before lies at \<^verbatim>\<open>./uploads/\<close> followed by exactly the rendered
  time of creation: nothing of the client's file name, and no extension, is in the path.
\<close>

theorem stored_under_uploads_by_time:
  assumes "files (fs (snd (handler v env r w))) p \<noteq> files (fs w) p"
  shows "p = ''./uploads/'' @ String (t_create env)"
  using files_changed [OF assms] by (simp add: dest_def Join_def uploadPath_def)

theorem stored_under_uploads_by_time_witness:
  "files (fs (snd (handler Plain env_ok (post (Some (form_with ''file''))) world_empty)))
     (''./uploads/'' @ String (t_create env_ok))
     \<noteq> files (fs world_empty) (''./uploads/'' @ String (t_create env_ok))
   \<and> ''./uploads/'' @ String (t_create env_ok)
       = ''./uploads/2024-05-01 10:00:00.000000002 +0000 UTC m=+5.000000002''"
proof -
  have "files (fs (snd (handler Plain env_ok (post (Some (form_with ''file''))) world_empty)))
      (''./uploads/'' @ String (t_create env_ok))
      \<noteq> files (fs world_empty) (''./uploads/'' @ String (t_create env_ok))"
    by (simp add: uploadHandler_def form_defs response_defs os_defs input_defs)
  then show ?thesis
    using stored_under_uploads_by_time [where v = Plain and env = env_ok
        and r = "post (Some (form_with ''file''))" and w = world_empty
        and p = "''./uploads/'' @ String (t_create env_ok)"]
    by (simp add: env_ok_def)
qed

text \<open>
  C6. When the directory step and the creation of the file succeed and the copy fails
  after \<open>n\<close> bytes, the answer is status 500 with \<^verbatim>\<open>Unable to save file\<close>, and the
  destination file is still on disk afterwards, holding the first \<open>n\<close> bytes of the
  upload: nothing removes it.
\<close>

theorem failed_copy_leaves_file:
  assumes "Method r = MethodPost" and "Body r = Some f" and "File f (field v) = fh # rest"
    and "\<not> (IsNotExist (Stat env (fs w) uploadPath) \<and> mkdir_error env)"
    and "\<not> create_error env" and "copy_error env = Some n"
  shows "status_sent (fst (handler v env r w)) = 500
       \<and> body (fst (handler v env r w)) = ''Unable to save file\<newline>\<newline>''
       \<and> files (fs (snd (handler v env r w))) (''./uploads/'' @ String (t_create env))
           = Some (take n (Content fh))"
proof -
  have d: "dest env = ''./uploads/'' @ String (t_create env)"
    by (simp add: dest_def Join_def uploadPath_def)
  show ?thesis
  proof (cases v)
    case Plain
    with assms show ?thesis
      using copy_fails_plain [of r f fh rest env w n] by (simp add: d)
  next
    case Cors
    with assms show ?thesis
      using copy_fails_cors [of r f fh rest env w n] by (simp add: d)
  qed
qed

theorem failed_copy_leaves_file_witness:
  "Method (post (Some (form_with ''image''))) = MethodPost
   \<and> Body (post (Some (form_with ''image''))) = Some (form_with ''image'')
   \<and> File (form_with ''image'') (field Cors) = [\<lparr>Filename = ''a.txt'', Content = payload\<rparr>]
   \<and> \<not> (IsNotExist (Stat env_copy_fails (fs world_empty) uploadPath) \<and> mkdir_error env_copy_fails)
   \<and> \<not> create_error env_copy_fails \<and> copy_error env_copy_fails = Some 4
   \<and> status_sent (fst (handler Cors env_copy_fails (post (Some (form_with ''image''))) world_empty)) = 500
   \<and> files (fs (snd (handler Cors env_copy_fails (post (Some (form_with ''image''))) world_empty)))
        (''./uploads/'' @ String (t_create env_copy_fails)) = Some [1, 2, 3, 4]"
  using failed_copy_leaves_file [where r = "post (Some (form_with ''image''))"
      and f = "form_with ''image''" and v = Cors
      and fh = "\<lparr>Filename = ''a.txt'', Content = payload\<rparr>" and rest = "[]"
      and env = env_copy_fails and w = world_empty and n = 4]
  by (simp add: input_defs MethodPost_def)

text \<open>
  C7. The CORS copy answers every OPTIONS request with status 200, an empty body and
  the three CORS headers, and leaves the world as it was.
\<close>

theorem preflight_answered:
  assumes "Method r = MethodOptions"
  shows "status_sent (fst (uploadHandler_cors env r w)) = 200
       \<and> body (fst (uploadHandler_cors env r w)) = []
       \<and> header (fst (uploadHandler_cors env r w)) ''Access-Control-Allow-Origin'' = Some ''*''
       \<and> header (fst (uploadHandler_cors env r w)) ''Access-Control-Allow-Methods'' = Some ''POST''
       \<and> header (fst (uploadHandler_cors env r w)) ''Access-Control-Allow-Headers''
           = Some ''Content-Type''
       \<and> snd (uploadHandler_cors env r w) = w"
  using assms by (simp add: uploadHandler_cors_def response_defs)

theorem preflight_answered_witness:
  "Method preflight = MethodOptions
   \<and> status_sent (fst (uploadHandler_cors env_ok preflight world_taken)) = 200
   \<and> body (fst (uploadHandler_cors env_ok preflight world_taken)) = []
   \<and> snd (uploadHandler_cors env_ok preflight world_taken) = world_taken"
  using preflight_answered [where r = preflight and env = env_ok and w = world_taken]
  by (simp add: preflight_def MethodOptions_def)

text \<open>
  C9. Every response of the CORS copy, whatever the request and whatever fails,
  carries the three CORS headers.
\<close>

theorem cors_headers_on_every_response:
  "header (fst (uploadHandler_cors env r w)) ''Access-Control-Allow-Origin'' = Some ''*''
   \<and> header (fst (uploadHandler_cors env r w)) ''Access-Control-Allow-Methods'' = Some ''POST''
   \<and> header (fst (uploadHandler_cors env r w)) ''Access-Control-Allow-Headers''
       = Some ''Content-Type''"
  by (simp add: cors_headers)

text \<open>
  C10. The path written depends on the clock alone. Two calls under the same clock,
  whatever their requests, their disks and the copy of the handler, write to the same
  path if they write at all; and replacing the client's file names in a request changes
  nothing in what the handler does.
\<close>

theorem path_independent_of_request:
  assumes "files (fs (snd (handler v1 env1 r1 w1))) p1 \<noteq> files (fs w1) p1"
    and "files (fs (snd (handler v2 env2 r2 w2))) p2 \<noteq> files (fs w2) p2"
    and "t_create env1 = t_create env2"
  shows "p1 = p2 \<and> handler v1 env1 (rename g r1) w1 = handler v1 env1 r1 w1"
  using files_changed [OF assms(1)] files_changed [OF assms(2)] assms(3)
  by (simp add: dest_def rename_handler)

theorem path_independent_of_request_witness:
  "files (fs (snd (handler Plain env_ok (post (Some (form_with ''file''))) world_empty)))
     (dest env_ok) \<noteq> files (fs world_empty) (dest env_ok)
   \<and> files (fs (snd (handler Cors env_copy_fails
        (rename (\<lambda>n. ''../../etc/passwd'') (post (Some (form_with ''image'')))) world_taken)))
     (dest env_ok) \<noteq> files (fs world_taken) (dest env_ok)
   \<and> t_create env_ok = t_create env_copy_fails
   \<and> handler Plain env_ok (rename (\<lambda>n. ''b.png'') (post (Some (form_with ''file'')))) world_empty
       = handler Plain env_ok (post (Some (form_with ''file''))) world_empty"
proof -
  have 1: "files (fs (snd (handler Plain env_ok (post (Some (form_with ''file''))) world_empty)))
      (dest env_ok) \<noteq> files (fs world_empty) (dest env_ok)"
    by (simp add: uploadHandler_def form_defs response_defs os_defs input_defs dest_def)
  have 2: "files (fs (snd (handler Cors env_copy_fails
        (rename (\<lambda>n. ''../../etc/passwd'') (post (Some (form_with ''image'')))) world_taken)))
      (dest env_ok) \<noteq> files (fs world_taken) (dest env_ok)"
    by (simp add: uploadHandler_cors_def form_defs response_defs os_defs input_defs dest_def
        rename_def)
  have 3: "t_create env_ok = t_create env_copy_fails"
    by (simp add: env_copy_fails_def)
  from 1 2 3 show ?thesis
    using path_independent_of_request [OF 1 2 3, of "\<lambda>n. ''b.png''"] by simp
qed

text \<open>
  C8 (as amended). When the listener cannot bind, \<^verbatim>\<open>main\<close> prints the error to standard
  output after the start-up line and then returns, so the program exits, with status 0.
\<close>

theorem bind_failure_printed_then_exit:
  "program (main (Some err))
     = ([''Server started at http://localhost:8080\<newline>'',
         ''Server failed: '' @ err @ ''\<newline>''], Some 0)
   \<and> program (main_cors (Some err))
     = ([''Server started at http://localhost:8085\<newline>'',
         ''Server failed: '' @ err @ ''\<newline>''], Some 0)"
  by (simp add: program_def main_def main_cors_def ListenAndServe_def Println_def HandleFunc_def)

text \<open>
  C8 as stated fails: with the port in use the process does not stay alive without
  serving, it has an exit status.
\<close>

theorem bind_failure_counterexample:
  "snd (program (main (Some ''listen tcp :8080: bind: address already in use''))) = Some 0
   \<and> snd (program (main None)) = None"
  by (simp add: program_def main_def ListenAndServe_def Println_def HandleFunc_def)

end
